theory Spec2Isabelle
  imports Complex_Main "HOL-Library.AList"
begin

section \<open>Python values and exceptions\<close>

text \<open>
  The module \<^verbatim>\<open>pysisso/outputs.py\<close> parses the text report of the SISSO solver.
  Python strings are modelled as \<^typ>\<open>string\<close>; every exception the parser can raise is
  a value of \<open>py_error\<close>, and a fallible function returns \<open>py_error + 'a\<close>
  (\<open>Inl\<close> carries the exception). A \<open>ValueError\<close> keeps its message, which tells the
  raise sites of the module apart.
\<close>

datatype py_error = ValueError string | IndexError | TypeError | StopIteration

definition bind :: "py_error + 'a \<Rightarrow> ('a \<Rightarrow> py_error + 'b) \<Rightarrow> py_error + 'b" where
  "bind m f = (case m of Inl e \<Rightarrow> Inl e | Inr x \<Rightarrow> f x)"

definition nl :: char where
  "nl = CHR 0x0A"

definition sq :: char where
  "sq = CHR 0x27"

definition dq :: char where
  "dq = CHR 0x22"

subsection \<open>String methods\<close>

text \<open>\<^verbatim>\<open>str.isspace\<close> on the code points below 256.\<close>

definition is_space :: "char \<Rightarrow> bool" where
  "is_space c =
     (c \<in> set [CHR 0x09, CHR 0x0A, CHR 0x0B, CHR 0x0C, CHR 0x0D, CHR 0x1C, CHR 0x1D, CHR 0x1E,
                CHR 0x1F, CHR 0x20, CHR 0x85, CHR 0xA0])"

text \<open>\<^verbatim>\<open>s.split()\<close>: the maximal runs of non-whitespace characters.\<close>

fun split_ws_from :: "string \<Rightarrow> string \<Rightarrow> string list" where
  "split_ws_from w [] = (if w = [] then [] else [w])"
| "split_ws_from w (c # cs) =
     (if is_space c then (if w = [] then split_ws_from [] cs else w # split_ws_from [] cs)
      else split_ws_from (w @ [c]) cs)"

definition split_ws :: "string \<Rightarrow> string list" where
  "split_ws s = split_ws_from [] s"

text \<open>\<^verbatim>\<open>s.split(sep)\<close> for a separator of one character: empty fields are kept.\<close>

fun split_on :: "char \<Rightarrow> string \<Rightarrow> string list" where
  "split_on sep [] = [[]]"
| "split_on sep (c # cs) =
     (if c = sep then [] # split_on sep cs
      else (case split_on sep cs of [] \<Rightarrow> [[c]] | w # ws \<Rightarrow> (c # w) # ws))"

text \<open>\<^verbatim>\<open>s.strip()\<close>.\<close>

definition strip :: "string \<Rightarrow> string" where
  "strip s = rev (dropWhile is_space (rev (dropWhile is_space s)))"

text \<open>\<^verbatim>\<open>s.startswith(p)\<close>.\<close>

fun starts_with :: "string \<Rightarrow> string \<Rightarrow> bool" where
  "starts_with [] s = True"
| "starts_with (p # ps) [] = False"
| "starts_with (p # ps) (c # cs) = (if p = c then starts_with ps cs else False)"

text \<open>
  \<^verbatim>\<open>s.replace(old, new)\<close>: the occurrences of \<open>old\<close> are replaced from the left,
  without overlap. For an empty \<open>old\<close> Python puts \<open>new\<close> around every character.
\<close>

function replace_occurrences :: "string \<Rightarrow> string \<Rightarrow> string \<Rightarrow> string" where
  "replace_occurrences old new [] = []"
| "replace_occurrences old new (c # cs) =
     (if old \<noteq> [] \<and> starts_with old (c # cs)
      then new @ replace_occurrences old new (drop (length old) (c # cs))
      else c # replace_occurrences old new cs)"
  by pat_completeness auto
termination
  by (relation "measure (\<lambda>(old, new, s). length s)") (auto simp: neq_Nil_conv)

definition replace :: "string \<Rightarrow> string \<Rightarrow> string \<Rightarrow> string" where
  "replace old new s =
     (if old = [] then new @ concat (map (\<lambda>c. c # new) s) else replace_occurrences old new s)"

text \<open>\<^verbatim>\<open>sub in s\<close> for strings.\<close>

fun contains :: "string \<Rightarrow> string \<Rightarrow> bool" where
  "contains sub [] = (sub = [])"
| "contains sub (c # cs) = (if starts_with sub (c # cs) then True else contains sub cs)"

text \<open>
  \<^verbatim>\<open>s[start:stop]\<close> for indices that are \<^verbatim>\<open>None\<close> or not negative, the only ones
  the module uses apart from \<^verbatim>\<open>s[1:-1]\<close>.
\<close>

definition slice :: "'a list \<Rightarrow> nat option \<Rightarrow> nat option \<Rightarrow> 'a list" where
  "slice s start stop =
     (let a = (case start of None \<Rightarrow> 0 | Some i \<Rightarrow> i);
          b = (case stop of None \<Rightarrow> length s | Some j \<Rightarrow> j)
      in drop a (take b s))"

text \<open>\<^verbatim>\<open>xs[i]\<close> for a non-negative index, and \<^verbatim>\<open>xs[-1]\<close>, \<^verbatim>\<open>xs[-2]\<close>.\<close>

definition item :: "'a list \<Rightarrow> nat \<Rightarrow> py_error + 'a" where
  "item xs i = (if i < length xs then Inr (xs ! i) else Inl IndexError)"

definition item_last :: "'a list \<Rightarrow> py_error + 'a" where
  "item_last xs = (if xs = [] then Inl IndexError else Inr (last xs))"

definition item_last_but_one :: "'a list \<Rightarrow> py_error + 'a" where
  "item_last_but_one xs =
     (if length xs < 2 then Inl IndexError else Inr (xs ! (length xs - 2)))"

section \<open>The kernel scd\<close>

text \<open>
  \<^verbatim>\<open>return 1.0 / (np.pi * (1.0 + x * x))\<close>, with the floating-point numbers read as
  real numbers.
\<close>

definition scd :: "real \<Rightarrow> real" where
  "scd x = 1 / (pi * (1 + x * x))"

section \<open>SISSOVersion\<close>

text \<open>
  \<^verbatim>\<open>SISSOVersion.from_string\<close>: the header is the stripped line, the version
  \<^verbatim>\<open>string.split(",")[0].split(".")[1:]\<close>. The components stay strings: the code
  converts none of them.
\<close>

record SISSOVersion =
  header_string :: string
  version :: "string list"

definition version_from_string :: "string \<Rightarrow> SISSOVersion" where
  "version_from_string s =
     \<lparr>header_string = strip s,
      version = tl (split_on CHR ''.'' (hd (split_on CHR '','' s)))\<rparr>"

section \<open>SISSODescriptor\<close>

definition OPERATORS_REPLACEMENT :: "string list" where
  "OPERATORS_REPLACEMENT =
     [''exp(-'', ''exp('', ''sin('', ''cos('', ''sqrt('', ''cbrt('', ''log('', ''abs('',
      ''scd('', '')^-1'', '')^2'', '')^3'', '')^6'', ''+'', ''-'', ''*'', ''/'', ''('', '')'']"

text \<open>The first loop of \<^verbatim>\<open>_decode_function\<close>: every operator becomes a run of \<open>#\<close>.\<close>

definition replace_operators :: "string \<Rightarrow> string" where
  "replace_operators s =
     foldl (\<lambda>acc op. replace op (replicate (length op) CHR ''#'') acc) s OPERATORS_REPLACEMENT"

record feature_occurrence =
  featname :: string
  istart :: nat
  iend :: nat

record scan_state =
  in_feature_word :: bool
  ichar_start :: "nat option"
  inputs :: "string list"
  features_in_string :: "feature_occurrence list"

text \<open>
  The loop over \<^verbatim>\<open>enumerate(replaced_string)\<close>: \<open>rs\<close> is the whole replaced string,
  \<open>ichar\<close> the index of the next character.
\<close>

definition scan_char :: "string \<Rightarrow> nat \<Rightarrow> char \<Rightarrow> scan_state \<Rightarrow> scan_state" where
  "scan_char rs ichar c st =
     (if in_feature_word st \<and> c = CHR ''#'' then
        (let name = slice rs (ichar_start st) (Some ichar) in
         st\<lparr>in_feature_word := False,
            inputs := (if name \<in> set (inputs st) then inputs st else inputs st @ [name]),
            features_in_string := features_in_string st @
              [\<lparr>featname = name, istart = the (ichar_start st), iend = ichar\<rparr>]\<rparr>)
      else if \<not> in_feature_word st \<and> c \<noteq> CHR ''#'' then
        st\<lparr>in_feature_word := True, ichar_start := Some ichar\<rparr>
      else st)"

fun scan_features :: "string \<Rightarrow> nat \<Rightarrow> string \<Rightarrow> scan_state \<Rightarrow> scan_state" where
  "scan_features rs ichar [] st = st"
| "scan_features rs ichar (c # cs) st = scan_features rs (Suc ichar) cs (scan_char rs ichar c st)"

definition scan_init :: scan_state where
  "scan_init = \<lparr>in_feature_word = False, ichar_start = None, inputs = [],
                features_in_string = []\<rparr>"

text \<open>
  The second loop: the text between the features is copied from the original string and
  each feature becomes \<^verbatim>\<open>df['name']\<close>.
\<close>

fun rebuild :: "string \<Rightarrow> nat option \<Rightarrow> feature_occurrence list \<Rightarrow> string list" where
  "rebuild s prev_ichar [] = [slice s prev_ichar None]"
| "rebuild s prev_ichar (f # fs) =
     slice s prev_ichar (Some (istart f)) # (''df['' @ [sq] @ featname f @ [sq] @ '']'')
       # rebuild s (Some (iend f)) fs"

definition numpy_operators :: "(string \<times> string) list" where
  "numpy_operators =
     [(''sin('', ''np.sin(''), (''cos('', ''np.cos(''), (''exp('', ''np.exp(''),
      (''log('', ''np.log(''), (''sqrt('', ''np.sqrt(''), (''cbrt('', ''np.cbrt(''),
      (''abs('', ''np.abs(''), ('')^2'', '')**2''), ('')^3'', '')**3''), ('')^6'', '')**6''),
      ('')^-1'', '')**-1'')]"

record decoded =
  evalstring :: string
  decoded_features :: "feature_occurrence list"
  decoded_inputs :: "string list"

definition decode_function :: "string \<Rightarrow> py_error + decoded" where
  "decode_function s =
     (let rs = replace_operators s in
      if rs = [] then Inl IndexError
      else if hd rs \<noteq> CHR ''#'' \<or> last rs \<noteq> CHR ''#'' then
        Inl (ValueError (rs @ '' should start and end with '' @ [dq] @ ''#'' @ [dq]))
      else
        (let st = scan_features rs 0 rs scan_init;
             ev = concat (rebuild s None (features_in_string st))
         in Inr \<lparr>evalstring = foldl (\<lambda>acc (old, new). replace old new acc) ev numpy_operators,
                 decoded_features = features_in_string st,
                 decoded_inputs = inputs st\<rparr>))"

record SISSODescriptor =
  descriptor_id :: int
  descriptor_string :: string
  descriptor_evalstring :: string

text \<open>\<^verbatim>\<open>SISSODescriptor.__init__\<close>: it keeps only the evalstring of the decoding.\<close>

definition descriptor_init :: "int \<Rightarrow> string \<Rightarrow> py_error + SISSODescriptor" where
  "descriptor_init i s =
     bind (decode_function s) (\<lambda>d.
       Inr \<lparr>descriptor_id = i, descriptor_string = s, descriptor_evalstring = evalstring d\<rparr>)"

section \<open>Regular expressions of the module\<close>

text \<open>
  The labels searched for are regular expressions that use two constructs only: the escape
  \<^verbatim>\<open>\c\<close> (the character \<open>c\<close> itself) and the dot (any character but the newline).
  \<open>compile_label\<close> reads such a source text; the table \<^verbatim>\<open>PARAMS\<close> below keeps the
  source texts as the module writes them.
\<close>

datatype re_item = Lit char | Dot

definition bs :: char where
  "bs = CHR 0x5C"

fun compile_label :: "string \<Rightarrow> re_item list" where
  "compile_label [] = []"
| "compile_label [c] = [if c = CHR ''.'' then Dot else Lit c]"
| "compile_label (c # d # cs) =
     (if c = bs then Lit d # compile_label cs
      else (if c = CHR ''.'' then Dot else Lit c) # compile_label (d # cs))"

fun match_items :: "re_item list \<Rightarrow> string \<Rightarrow> bool" where
  "match_items [] s = True"
| "match_items (p # ps) [] = False"
| "match_items (Lit a # ps) (c # cs) = (if c = a then match_items ps cs else False)"
| "match_items (Dot # ps) (c # cs) = (if c = nl then False else match_items ps cs)"

text \<open>A matcher gives the text matched at the start of a string, if the pattern matches there.\<close>

type_synonym matcher = "string \<Rightarrow> string option"

text \<open>The pattern \<open>p\<close> alone.\<close>

definition items_match :: "re_item list \<Rightarrow> matcher" where
  "items_match p s = (if match_items p s then Some (take (length p) s) else None)"

text \<open>
  The pattern \<^verbatim>\<open>p.*?\n\<close> (and \<^verbatim>\<open>p.*\n\<close>: the dot does not match a newline, so both
  end at the first newline after \<open>p\<close>).
\<close>

definition line_match :: "re_item list \<Rightarrow> matcher" where
  "line_match p s =
     (if match_items p s then
        (if nl \<in> set (drop (length p) s)
         then Some (take (length p + length (takeWhile (\<lambda>c. c \<noteq> nl) (drop (length p) s)) + 1) s)
         else None)
      else None)"

text \<open>The index of the first occurrence of a text.\<close>

fun find_sub :: "string \<Rightarrow> string \<Rightarrow> nat option" where
  "find_sub sub [] = (if sub = [] then Some 0 else None)"
| "find_sub sub (c # cs) =
     (if starts_with sub (c # cs) then Some 0 else map_option Suc (find_sub sub cs))"

text \<open>
  The pattern \<^verbatim>\<open>Dimension:.*?(?=Time \(second\) used for this DI:).*?\n\<close> with
  \<^verbatim>\<open>re.DOTALL\<close>: from the header to the first following time label, and on to the
  first newline from there.
\<close>

definition dimension_match :: matcher where
  "dimension_match s =
     (if starts_with ''Dimension:'' s then
        (case find_sub ''Time (second) used for this DI:'' (drop 10 s) of
           None \<Rightarrow> None
         | Some k \<Rightarrow>
             if nl \<in> set (drop (10 + k) s)
             then Some (take (10 + k + length (takeWhile (\<lambda>c. c \<noteq> nl) (drop (10 + k) s)) + 1) s)
             else None)
      else None)"

text \<open>
  One repetition of the units pattern \<^verbatim>\<open>(  (?:\d+\.\d* )+(?:\d+\.\d*)\n)+\<close>: two
  spaces, then at least two numbers \<^verbatim>\<open>\d+\.\d*\<close> separated by one space, then the
  newline. \<open>units_numbers\<close> reads the numbers; \<open>k\<close> counts the numbers already followed
  by a space; the result is the text after the newline.
\<close>

definition is_digit :: "char \<Rightarrow> bool" where
  "is_digit c = (c \<in> set ''0123456789'')"

datatype number_part = Integer_start | Integer_digits | Fraction_digits

fun units_numbers :: "number_part \<Rightarrow> nat \<Rightarrow> string \<Rightarrow> string option" where
  "units_numbers part k [] = None"
| "units_numbers Integer_start k (c # cs) =
     (if is_digit c then units_numbers Integer_digits k cs else None)"
| "units_numbers Integer_digits k (c # cs) =
     (if is_digit c then units_numbers Integer_digits k cs
      else if c = CHR ''.'' then units_numbers Fraction_digits k cs else None)"
| "units_numbers Fraction_digits k (c # cs) =
     (if is_digit c then units_numbers Fraction_digits k cs
      else if c = CHR '' '' then units_numbers Integer_start (Suc k) cs
      else if c = nl \<and> 0 < k then Some cs else None)"

definition units_row :: "string \<Rightarrow> string option" where
  "units_row s =
     (case s of
        c # d # cs \<Rightarrow>
          if c = CHR '' '' \<and> d = CHR '' '' then units_numbers Integer_start 0 cs else None
      | _ \<Rightarrow> None)"

lemma units_numbers_shorter: "units_numbers part k s = Some r \<Longrightarrow> length r < length s"
  by (induction part k s rule: units_numbers.induct) (auto split: if_splits)

lemma units_row_shorter: "units_row s = Some r \<Longrightarrow> length r < length s"
  by (auto simp: units_row_def split: list.splits if_splits dest: units_numbers_shorter)

text \<open>The greedy repetition: rows are taken as long as they match.\<close>

function units_rows :: "string \<Rightarrow> string" where
  "units_rows s = (case units_row s of None \<Rightarrow> s | Some r \<Rightarrow> units_rows r)"
  by pat_completeness auto
termination
  by (relation "measure length") (auto dest: units_row_shorter)

definition units_match :: matcher where
  "units_match s =
     (case units_row s of
        None \<Rightarrow> None
      | Some r \<Rightarrow> Some (take (length s - length (units_rows r)) s))"

text \<open>
  \<^verbatim>\<open>re.search\<close> gives the leftmost match; \<^verbatim>\<open>re.findall\<close> gives the matches from the
  left without overlap, the search going on where the last match ended (one character
  further after an empty match).
\<close>

fun search :: "matcher \<Rightarrow> string \<Rightarrow> string option" where
  "search m [] = m []"
| "search m (c # cs) = (case m (c # cs) of Some x \<Rightarrow> Some x | None \<Rightarrow> search m cs)"

function findall :: "matcher \<Rightarrow> string \<Rightarrow> string list" where
  "findall m [] = (case m [] of Some x \<Rightarrow> [x] | None \<Rightarrow> [])"
| "findall m (c # cs) =
     (case m (c # cs) of
        None \<Rightarrow> findall m cs
      | Some x \<Rightarrow> if x = [] then x # findall m cs else x # findall m (drop (length x) (c # cs)))"
  by pat_completeness auto
termination
  by (relation "measure (\<lambda>(m, s). length s)") (auto simp: neq_Nil_conv)

section \<open>The builtins\<close>

text \<open>
  \<^verbatim>\<open>int\<close> and \<^verbatim>\<open>float\<close> of a string, and the coercions of \<^verbatim>\<open>pysisso.utils\<close>, are
  not part of the module: they are parameters. \<open>'f\<close> is the type of floats, \<open>'v\<close> the
  type of the values a parameter field can hold.
\<close>

datatype coercion =
  Py_int | Py_float | Py_str | List_of_ints | List_of_strs | Matrix_of_floats | Str_to_bool

record ('f, 'v) python =
  py_int :: "string \<Rightarrow> py_error + int"
  py_float :: "string \<Rightarrow> py_error + 'f"
  var_type :: "coercion \<Rightarrow> string \<Rightarrow> py_error + 'v"

fun traverse :: "('a \<Rightarrow> py_error + 'b) \<Rightarrow> 'a list \<Rightarrow> py_error + 'b list" where
  "traverse f [] = Inr []"
| "traverse f (x # xs) = bind (f x) (\<lambda>y. bind (traverse f xs) (\<lambda>ys. Inr (y # ys)))"

section \<open>SISSOModel\<close>

text \<open>\<^verbatim>\<open>SISSODescriptor.from_string\<close>; \<^verbatim>\<open>sp[1][1:-1]\<close> drops the brackets.\<close>

definition descriptor_from_string ::
  "('f, 'v) python \<Rightarrow> string \<Rightarrow> py_error + SISSODescriptor" where
  "descriptor_from_string P line =
     (let sp = split_on CHR '':'' line in
      bind (item sp 0) (\<lambda>a. bind (py_int P a) (\<lambda>i.
      bind (item sp 1) (\<lambda>b. descriptor_init i (butlast (drop 1 b))))))"

record 'f SISSOModel =
  dimension :: int
  descriptors :: "SISSODescriptor list"
  coefficients :: "'f list list"
  intercept :: "'f list"
  rmse :: "'f list"
  maxae :: "'f list"

record 'f model_state =
  st_descriptors :: "SISSODescriptor list option"
  st_coefficients :: "'f list list"
  st_intercept :: "'f list"
  st_rmse :: "'f list"
  st_maxae :: "'f list"

text \<open>The body of the loop over the lines in \<^verbatim>\<open>SISSOModel.from_string\<close>.\<close>

definition model_line ::
  "('f, 'v) python \<Rightarrow> int \<Rightarrow> string \<Rightarrow> 'f model_state \<Rightarrow> py_error + 'f model_state" where
  "model_line P ndim line st =
     (if contains ''@@@descriptor'' line then Inr (st\<lparr>st_descriptors := Some []\<rparr>)
      else if st_descriptors st \<noteq> None \<and> int (length (the (st_descriptors st))) < ndim then
        bind (descriptor_from_string P line) (\<lambda>d.
          Inr (st\<lparr>st_descriptors := Some (the (st_descriptors st) @ [d])\<rparr>))
      else if contains ''coefficients_'' line then
        bind (item (split_on CHR '':'' line) 1) (\<lambda>x.
        bind (traverse (py_float P) (split_ws x)) (\<lambda>row.
          Inr (st\<lparr>st_coefficients := st_coefficients st @ [row]\<rparr>)))
      else if contains ''Intercept_'' line then
        bind (item (split_on CHR '':'' line) 1) (\<lambda>x.
        bind (py_float P x) (\<lambda>v.
          Inr (st\<lparr>st_intercept := st_intercept st @ [v]\<rparr>)))
      else if contains ''RMSE,MaxAE_'' line then
        (let sp = split_ws line in
         bind (item sp 1) (\<lambda>a. bind (py_float P a) (\<lambda>r.
         bind (item sp 2) (\<lambda>b. bind (py_float P b) (\<lambda>m.
           Inr (st\<lparr>st_rmse := st_rmse st @ [r], st_maxae := st_maxae st @ [m]\<rparr>))))))
      else Inr st)"

fun model_lines ::
  "('f, 'v) python \<Rightarrow> int \<Rightarrow> string list \<Rightarrow> 'f model_state \<Rightarrow> py_error + 'f model_state" where
  "model_lines P ndim [] st = Inr st"
| "model_lines P ndim (line # lines) st = bind (model_line P ndim line st) (model_lines P ndim lines)"

definition model_from_string :: "('f, 'v) python \<Rightarrow> string \<Rightarrow> py_error + 'f SISSOModel" where
  "model_from_string P s =
     (let lines = split_on nl s in
      bind (item lines 0) (\<lambda>first. bind (item_last (split_ws first)) (\<lambda>tok.
      bind (py_int P tok) (\<lambda>ndim.
      bind (model_lines P ndim lines
              \<lparr>st_descriptors = None, st_coefficients = [], st_intercept = [],
               st_rmse = [], st_maxae = []\<rparr>) (\<lambda>st.
        case st_descriptors st of
          None \<Rightarrow> Inl (ValueError ''Descriptor not found'')
        | Some ds \<Rightarrow>
            Inr \<lparr>dimension = ndim, descriptors = ds, coefficients = st_coefficients st,
                 intercept = st_intercept st, rmse = st_rmse st, maxae = st_maxae st\<rparr>)))))"

section \<open>SISSOIteration\<close>

record 'f SISSOIteration =
  iteration_number :: int
  sisso_model :: "'f SISSOModel"
  feature_spaces :: "(string \<times> int) list"
  SIS_subspace_size :: int
  cpu_time :: 'f

text \<open>
  The dictionary comprehension over the feature-space lines: the key is
  \<^verbatim>\<open>mfs.split()[-2][:-1]\<close>, the value \<^verbatim>\<open>int(mfs.split()[-1])\<close>; a key met again keeps
  its place and takes the new value.
\<close>

fun feature_spaces_of ::
  "('f, 'v) python \<Rightarrow> string list \<Rightarrow> (string \<times> int) list \<Rightarrow> py_error + (string \<times> int) list" where
  "feature_spaces_of P [] d = Inr d"
| "feature_spaces_of P (mfs # ms) d =
     bind (item_last_but_one (split_ws mfs)) (\<lambda>k.
     bind (item_last (split_ws mfs)) (\<lambda>tok. bind (py_int P tok) (\<lambda>n.
       feature_spaces_of P ms (AList.update (butlast k) n d))))"

text \<open>The three match lists of \<^verbatim>\<open>SISSOIteration.from_string\<close>.\<close>

definition match_feature_spaces :: "string \<Rightarrow> string list" where
  "match_feature_spaces s =
     findall (line_match (compile_label ''Total number of features in the space phi'')) s"

definition match_SIS_subspace_size :: "string \<Rightarrow> string list" where
  "match_SIS_subspace_size s =
     findall (line_match (compile_label ''Size of the SIS-selected subspace'')) s"

definition match_cputime :: "string \<Rightarrow> string list" where
  "match_cputime s =
     findall (line_match
       (compile_label (''Time '' @ [bs] @ ''(second'' @ [bs] @ '') used for this DI:''))) s"

definition iteration_from_string ::
  "('f, 'v) python \<Rightarrow> string \<Rightarrow> py_error + 'f SISSOIteration" where
  "iteration_from_string P s =
     bind (model_from_string P s) (\<lambda>m.
     bind (feature_spaces_of P (match_feature_spaces s) []) (\<lambda>fs.
     bind (item (match_SIS_subspace_size s) 0) (\<lambda>size_line.
     bind (item_last (split_ws size_line)) (\<lambda>size_tok. bind (py_int P size_tok) (\<lambda>size.
     bind (item (match_cputime s) 0) (\<lambda>time_line.
     bind (item_last (split_ws time_line)) (\<lambda>time_tok. bind (py_float P time_tok) (\<lambda>t.
       Inr \<lparr>iteration_number = dimension m, sisso_model = m, feature_spaces = fs,
            SIS_subspace_size = size, cpu_time = t\<rparr>))))))))"

section \<open>SISSOParams\<close>

definition PARAMS :: "(string \<times> string \<times> coercion) list" where
  "PARAMS =
     [(''property_type'', ''Property type:'', Py_int),
      (''total_number_properties'', ''Number of tasks:'', Py_int),
      (''descriptor_dimension'', ''Descriptor dimension:'', Py_int),
      (''number_of_samples'', ''Number of samples for each task:'', List_of_ints),
      (''n_scalar_features'', ''Number of scalar features:'', Py_int),
      (''n_rungs'', ''Tier of the feature space:'', Py_int),
      (''max_feature_complexity'',
       ''Maximal feature complexity '' @ [bs] @ ''(number of operators in a feature''
         @ [bs] @ ''):'', Py_int),
      (''dimension_types'',
       ''Units of the input primary features (each represented by a vector):'',
       Matrix_of_floats),
      (''lower_bound_maxabs_value'',
       ''The feature will be discarded if the minimum of the maximal abs. value in it <'',
       Py_float),
      (''upper_bound_maxabs_value'',
       ''The faature will be discarded if the maximum of the maximal abs'' @ [bs]
         @ ''. value in it >'', Py_float),
      (''SIS_subspaces_sizes'',
       ''Size of the SIS-selected '' @ [bs] @ ''(single'' @ [bs] @ '') subspace :'',
       List_of_ints),
      (''operators'', ''Operators for feature construction:'', List_of_strs),
      (''sparsification_method'', ''Method for sparse regression:'', Py_str),
      (''n_topmodels'', ''Number of the top-ranked models to output:'', Py_int),
      (''fit_intercept'', ''Fitting intercept:'', Str_to_bool),
      (''metric'', ''Metric for model selection:'', Py_str)]"

text \<open>
  The body of the loop of \<^verbatim>\<open>SISSOParams.from_string\<close>; \<open>kwargs\<close> is the dictionary of
  the fields set so far. The test of the second branch is \<^verbatim>\<open>len(matches) != 1\<close>, as the
  module has it.
\<close>

definition params_entry ::
  "('f, 'v) python \<Rightarrow> string \<Rightarrow> string \<times> string \<times> coercion \<Rightarrow> (string \<times> 'v) list \<Rightarrow>
     py_error + (string \<times> 'v) list" where
  "params_entry P s entry kwargs =
     (case entry of (class_var, output_var_str, ty) \<Rightarrow>
        if class_var = ''dimension_types'' then
          (case search units_match s of
             None \<Rightarrow> Inr kwargs
           | Some m \<Rightarrow> bind (var_type P ty m) (\<lambda>v. Inr (AList.update class_var v kwargs)))
        else
          (let matches = findall (line_match (compile_label output_var_str)) s in
           if length matches \<noteq> 1 then
             bind (item matches 0) (\<lambda>m. bind (item_last (split_ws m)) (\<lambda>tok.
             bind (var_type P ty tok) (\<lambda>v. Inr (AList.update class_var v kwargs))))
           else Inr kwargs))"

fun params_entries ::
  "('f, 'v) python \<Rightarrow> string \<Rightarrow> (string \<times> string \<times> coercion) list \<Rightarrow> (string \<times> 'v) list \<Rightarrow>
     py_error + (string \<times> 'v) list" where
  "params_entries P s [] kwargs = Inr kwargs"
| "params_entries P s (e # es) kwargs = bind (params_entry P s e kwargs) (params_entries P s es)"

text \<open>
  A \<^verbatim>\<open>SISSOParams\<close> object is the dictionary it was built from: a field that is not a
  key has the default \<^verbatim>\<open>None\<close>.
\<close>

definition params_from_string :: "('f, 'v) python \<Rightarrow> string \<Rightarrow> py_error + (string \<times> 'v) list" where
  "params_from_string P s = params_entries P s PARAMS []"

section \<open>SISSOOut\<close>

record ('f, 'v) SISSOOut =
  out_params :: "(string \<times> 'v) list"
  out_iterations :: "'f SISSOIteration list"
  out_version :: SISSOVersion
  out_cpu_time :: 'f

text \<open>
  \<^verbatim>\<open>next(f)\<close> on the file: the next line with its newline and the text left, or
  \<^verbatim>\<open>StopIteration\<close> at the end of the file.
\<close>

definition read_line :: "string \<Rightarrow> py_error + string \<times> string" where
  "read_line s =
     (if s = [] then Inl StopIteration
      else (case dropWhile (\<lambda>c. c \<noteq> nl) s of
              [] \<Rightarrow> Inr (s, [])
            | c # rest \<Rightarrow> Inr (takeWhile (\<lambda>c. c \<noteq> nl) s @ [c], rest)))"

text \<open>\<^verbatim>\<open>[next(f) for x in range(3)]\<close>, then \<^verbatim>\<open>header_lines[2]\<close>.\<close>

definition third_line :: "string \<Rightarrow> py_error + string" where
  "third_line s =
     bind (read_line s) (\<lambda>(l1, s1).
     bind (read_line s1) (\<lambda>(l2, s2).
     bind (read_line s2) (\<lambda>(l3, s3). Inr l3)))"

definition unfinished :: py_error where
  "unfinished = ValueError (''SISSO.out should end with '' @ [sq] @ ''Have a nave day !'' @ [sq])"

text \<open>
  \<^verbatim>\<open>SISSOOut.from_file\<close> after the test of the sentinel; \<open>s\<close> is the text of the file.
  Subscripting the \<^verbatim>\<open>None\<close> of a failed search is a \<^verbatim>\<open>TypeError\<close>.
\<close>

definition total_time_label :: string where
  "total_time_label = ''Total time '' @ [bs] @ ''(second'' @ [bs] @ ''):''"

definition sentinel :: string where
  "sentinel = ''Have a nice day !''"

definition parse_report :: "('f, 'v) python \<Rightarrow> string \<Rightarrow> py_error + ('f, 'v) SISSOOut" where
  "parse_report P s =
     bind (params_from_string P s) (\<lambda>params.
     bind (traverse (iteration_from_string P) (findall dimension_match s)) (\<lambda>its.
     bind (third_line s) (\<lambda>header.
     (case search (line_match (compile_label total_time_label)) s of
        None \<Rightarrow> Inl TypeError
      | Some m \<Rightarrow>
          bind (item_last (split_ws m)) (\<lambda>tok. bind (py_float P tok) (\<lambda>t.
            Inr \<lparr>out_params = params, out_iterations = its,
                 out_version = version_from_string header, out_cpu_time = t\<rparr>))))))"

definition from_file ::
  "('f, 'v) python \<Rightarrow> string \<Rightarrow> bool \<Rightarrow> py_error + ('f, 'v) SISSOOut" where
  "from_file P s allow_unfinished =
     (if search (items_match (compile_label sentinel)) s = None \<and> \<not> allow_unfinished
      then Inl unfinished
      else parse_report P s)"

text \<open>The property \<^verbatim>\<open>model\<close>: \<^verbatim>\<open>self.iterations[-1].sisso_model\<close>.\<close>

definition out_model :: "('f, 'v) SISSOOut \<Rightarrow> py_error + 'f SISSOModel" where
  "out_model out = bind (item_last (out_iterations out)) (\<lambda>it. Inr (sisso_model it))"

section \<open>Evaluation and prediction\<close>

text \<open>
  \<^verbatim>\<open>evaluate\<close> hands the evalstring to Python's \<^verbatim>\<open>eval\<close>, with the table bound to
  \<^verbatim>\<open>df\<close>. The interpreter and the table are parameters: \<open>py_eval\<close> gives the column
  an expression text denotes over a table, or the exception it raises, and \<open>len_df\<close>
  the number of rows of a table.
\<close>

record ('f, 'df) pandas =
  py_eval :: "string \<Rightarrow> 'df \<Rightarrow> py_error + 'f list"
  len_df :: "'df \<Rightarrow> nat"

definition evaluate :: "('f, 'df) pandas \<Rightarrow> SISSODescriptor \<Rightarrow> 'df \<Rightarrow> py_error + 'f list" where
  "evaluate E descr df = py_eval E (descriptor_evalstring descr) df"

text \<open>
  The arrays of \<^verbatim>\<open>predict\<close>: an array of one axis, or an array of \<open>n\<close> rows and \<open>m\<close>
  columns given by its rows. \<^verbatim>\<open>np.array\<close> of an empty list has one axis of length 0;
  of a list of rows of one length it has two.
\<close>

datatype 'f ndarray = Array1 "'f list" | Array2 nat nat "'f list list"

definition np_array :: "'f list list \<Rightarrow> 'f ndarray" where
  "np_array xss = (if xss = [] then Array1 [] else Array2 (length xss) (length (hd xss)) xss)"

fun np_T :: "'f ndarray \<Rightarrow> 'f ndarray" where
  "np_T (Array1 xs) = Array1 xs"
| "np_T (Array2 n m rows) = Array2 m n (map (\<lambda>j. map (\<lambda>row. row ! j) rows) [0..<m])"

text \<open>
  \<^verbatim>\<open>out[:, itask] += dval\<close>: two indices on an array of one axis, or a column that is
  not there, raise \<^verbatim>\<open>IndexError\<close>; a column of another length than the array's is
  reported as numpy's \<^verbatim>\<open>ValueError\<close> (the broadcast of a column of length one is
  left out of the model).
\<close>

fun add_column :: "'f::plus ndarray \<Rightarrow> nat \<Rightarrow> 'f list \<Rightarrow> py_error + 'f ndarray" where
  "add_column (Array1 xs) itask dval = Inl IndexError"
| "add_column (Array2 n m rows) itask dval =
     (if m \<le> itask then Inl IndexError
      else if length dval \<noteq> n then Inl (ValueError ''operands could not be broadcast together'')
      else Inr (Array2 n m (map (\<lambda>(row, v). row[itask := row ! itask + v]) (zip rows dval))))"

text \<open>The loop over \<^verbatim>\<open>enumerate(self.coefficients)\<close>, for the descriptor \<open>idescr\<close>.\<close>

fun predict_tasks ::
  "('f::{plus,times}, 'df) pandas \<Rightarrow> 'df \<Rightarrow> nat \<Rightarrow> SISSODescriptor \<Rightarrow> nat \<Rightarrow> 'f list list \<Rightarrow>
     'f ndarray \<Rightarrow> py_error + 'f ndarray" where
  "predict_tasks E df idescr descr itask [] out = Inr out"
| "predict_tasks E df idescr descr itask (coeffs # rest) out =
     bind (item coeffs idescr) (\<lambda>c.
     bind (evaluate E descr df) (\<lambda>col.
     bind (add_column out itask (map (\<lambda>v. c * v) col))
       (predict_tasks E df idescr descr (Suc itask) rest)))"

text \<open>The loop over \<^verbatim>\<open>enumerate(self.descriptors)\<close>.\<close>

fun predict_descriptors ::
  "('f::{plus,times}, 'df) pandas \<Rightarrow> 'df \<Rightarrow> 'f list list \<Rightarrow> nat \<Rightarrow> SISSODescriptor list \<Rightarrow>
     'f ndarray \<Rightarrow> py_error + 'f ndarray" where
  "predict_descriptors E df coeffss idescr [] out = Inr out"
| "predict_descriptors E df coeffss idescr (descr # ds) out =
     bind (predict_tasks E df idescr descr 0 coeffss out)
       (predict_descriptors E df coeffss (Suc idescr) ds)"

definition predict ::
  "('f::{plus,times}, 'df) pandas \<Rightarrow> 'f SISSOModel \<Rightarrow> 'df \<Rightarrow> py_error + 'f ndarray" where
  "predict E M df =
     predict_descriptors E df (coefficients M) 0 (descriptors M)
       (np_T (np_array (map (\<lambda>c. replicate (len_df E df) c) (intercept M))))"

text \<open>
  An array of \<open>n\<close> rows and \<open>m\<close> columns whose entry in row \<open>i\<close> and column \<open>t\<close> is
  \<open>g i t\<close>.
\<close>

definition has_entries :: "'f ndarray \<Rightarrow> nat \<Rightarrow> nat \<Rightarrow> (nat \<Rightarrow> nat \<Rightarrow> 'f) \<Rightarrow> bool" where
  "has_entries a n m g =
     (case a of
        Array1 xs \<Rightarrow> False
      | Array2 n' m' rows \<Rightarrow>
          n' = n \<and> m' = m \<and> rows = map (\<lambda>i. map (\<lambda>t. g i t) [0..<m]) [0..<n])"

section \<open>An instance of the builtins\<close>

text \<open>
  To run the parser on examples the parameters are instantiated: \<open>int_of_string\<close> reads
  an optional sign and decimal digits between whitespace, as \<^verbatim>\<open>int\<close> does on such
  texts, and a float or a parameter value is represented by the text of its literal. In
  the example table every expression denotes the one column of the table.
\<close>

fun digits_value :: "string \<Rightarrow> int \<Rightarrow> int option" where
  "digits_value [] n = Some n"
| "digits_value (c # cs) n =
     (if is_digit c then digits_value cs (10 * n + (int (of_char c) - 48)) else None)"

definition int_of_string :: "string \<Rightarrow> py_error + int" where
  "int_of_string s =
     (let invalid = Inl (ValueError (''invalid literal for int(): '' @ s)) in
      case strip s of
        [] \<Rightarrow> invalid
      | c # cs \<Rightarrow>
          if c = CHR ''-'' \<or> c = CHR ''+'' then
            (if cs = [] then invalid
             else (case digits_value cs 0 of
                     None \<Rightarrow> invalid
                   | Some n \<Rightarrow> Inr (if c = CHR ''-'' then - n else n)))
          else (case digits_value (c # cs) 0 of None \<Rightarrow> invalid | Some n \<Rightarrow> Inr n))"

definition example_python :: "(string, string) python" where
  "example_python =
     \<lparr>py_int = int_of_string, py_float = (\<lambda>s. Inr (strip s)), var_type = (\<lambda>ty s. Inr s)\<rparr>"

definition example_pandas :: "(int, int list) pandas" where
  "example_pandas = \<lparr>py_eval = (\<lambda>e df. Inr df), len_df = length\<rparr>"

section \<open>Lemmas\<close>

subsection \<open>Decoding\<close>

lemma starts_with_append: "starts_with p s \<longleftrightarrow> (\<exists>v. s = p @ v)"
  by (induction p s rule: starts_with.induct) auto

lemma length_replace_occurrences:
  "length new = length old \<Longrightarrow> length (replace_occurrences old new s) = length s"
proof (induction old new s rule: replace_occurrences.induct)
  case (1 old new)
  then show ?case by simp
next
  case (2 old new c cs)
  show ?case
  proof (cases "old \<noteq> [] \<and> starts_with old (c # cs)")
    case True
    then obtain v where "c # cs = old @ v"
      by (auto simp: starts_with_append)
    then have "length old \<le> length (c # cs)"
      by (metis length_append le_add1)
    with True 2 show ?thesis by simp
  next
    case False
    with 2 show ?thesis by auto
  qed
qed

lemma length_replace:
  "old \<noteq> [] \<Longrightarrow> length new = length old \<Longrightarrow> length (replace old new s) = length s"
  by (simp add: replace_def length_replace_occurrences)

lemma length_fold_replace:
  "[] \<notin> set ops \<Longrightarrow>
   length (foldl (\<lambda>acc op. replace op (replicate (length op) c) acc) s ops) = length s"
  by (induction ops arbitrary: s) (auto simp: length_replace)

lemma length_replace_operators: "length (replace_operators s) = length s"
  unfolding replace_operators_def
  by (rule length_fold_replace) (simp add: OPERATORS_REPLACEMENT_def)

lemma scan_features_markers:
  "set cs \<subseteq> {CHR ''#''} \<Longrightarrow> \<not> in_feature_word st \<Longrightarrow> scan_features rs i cs st = st"
  by (induction cs arbitrary: i) (auto simp: scan_char_def)

subsection \<open>Searching\<close>

lemma match_items_lits: "match_items (map Lit p) s \<longleftrightarrow> (\<exists>v. s = p @ v)"
proof (induction p arbitrary: s)
  case Nil
  then show ?case by simp
next
  case (Cons a p)
  then show ?case by (cases s) auto
qed

lemma search_lits_None:
  "search (items_match (map Lit p)) s = None \<longleftrightarrow> \<not> (\<exists>u v. s = u @ p @ v)"
proof (induction s)
  case Nil
  then show ?case by (auto simp: items_match_def match_items_lits)
next
  case (Cons c cs)
  have "(\<exists>u v. c # cs = u @ p @ v) \<longleftrightarrow> (\<exists>v. c # cs = p @ v) \<or> (\<exists>u v. cs = u @ p @ v)"
  proof
    assume "\<exists>u v. c # cs = u @ p @ v"
    then obtain u v where uv: "c # cs = u @ p @ v" by blast
    show "(\<exists>v. c # cs = p @ v) \<or> (\<exists>u v. cs = u @ p @ v)"
    proof (cases u)
      case Nil
      with uv show ?thesis by auto
    next
      case (Cons a u')
      with uv have "cs = u' @ p @ v" by simp
      then show ?thesis by blast
    qed
  next
    assume "(\<exists>v. c # cs = p @ v) \<or> (\<exists>u v. cs = u @ p @ v)"
    then show "\<exists>u v. c # cs = u @ p @ v"
    proof
      assume "\<exists>v. c # cs = p @ v"
      then obtain v where "c # cs = [] @ p @ v" by auto
      then show ?thesis by blast
    next
      assume "\<exists>u v. cs = u @ p @ v"
      then obtain u v where "c # cs = (c # u) @ p @ v" by auto
      then show ?thesis by blast
    qed
  qed
  with Cons show ?case
    by (auto simp: items_match_def match_items_lits split: option.splits)
qed

lemma findall_no_match:
  "(\<And>u v. s = u @ v \<Longrightarrow> m v = None) \<Longrightarrow> findall m s = []"
proof (induction s)
  case Nil
  then show ?case by simp
next
  case (Cons c cs)
  have "m (c # cs) = None"
    using Cons.prems [of "[]" "c # cs"] by simp
  moreover have "findall m cs = []"
  proof (rule Cons.IH)
    fix u v assume "cs = u @ v"
    then have "c # cs = (c # u) @ v" by simp
    then show "m v = None" by (rule Cons.prems)
  qed
  ultimately show ?case by simp
qed

lemma dimension_match_None:
  assumes "\<not> (\<exists>u v. s = u @ ''Dimension:'' @ v)" and "s = u @ v"
  shows "dimension_match v = None"
proof (cases "starts_with ''Dimension:'' v")
  case True
  then obtain w where "v = ''Dimension:'' @ w"
    by (auto simp: starts_with_append)
  with assms show ?thesis by blast
next
  case False
  then show ?thesis by (simp add: dimension_match_def)
qed

lemma findall_dimension_Nil:
  "\<not> (\<exists>u v. s = u @ ''Dimension:'' @ v) \<Longrightarrow> findall dimension_match s = []"
  by (rule findall_no_match) (rule dimension_match_None)

lemma findall_Cons_match: "findall m s = x # xs \<Longrightarrow> \<exists>v. m v = Some x"
  by (induction m s rule: findall.induct) (auto split: option.splits if_splits)

lemma match_items_take: "match_items p s \<Longrightarrow> length p \<le> k \<Longrightarrow> match_items p (take k s)"
proof (induction p s arbitrary: k rule: match_items.induct)
  case (1 s)
  then show ?case by simp
next
  case (2 p ps)
  then show ?case by simp
next
  case (3 a ps c cs)
  then show ?case by (cases k) (auto split: if_splits)
next
  case (4 ps c cs)
  then show ?case by (cases k) (auto split: if_splits)
qed

lemma line_match_items: "line_match p v = Some x \<Longrightarrow> match_items p x"
  by (auto simp: line_match_def intro: match_items_take split: if_splits)

lemma split_ws_from_word: "w \<noteq> [] \<Longrightarrow> split_ws_from w s \<noteq> []"
  by (induction s arbitrary: w) auto

lemma split_ws_label:
  assumes "match_items (Lit c # ps) x" and "\<not> is_space c"
  shows "split_ws x \<noteq> []"
proof -
  from assms(1) obtain x' where "x = c # x'"
    by (cases x) (auto split: if_splits)
  with assms(2) show ?thesis
    by (simp add: split_ws_def split_ws_from_word)
qed

lemma findall_line_token:
  assumes "findall (line_match (Lit c # ps)) s = x # xs" and "\<not> is_space c"
  shows "item_last (split_ws x) = Inr (last (split_ws x))"
proof -
  from findall_Cons_match [OF assms(1)] obtain v where "line_match (Lit c # ps) v = Some x"
    by blast
  then have "match_items (Lit c # ps) x"
    by (rule line_match_items)
  then have "split_ws x \<noteq> []"
    using assms(2) by (rule split_ws_label)
  then show ?thesis by (simp add: item_last_def)
qed

subsection \<open>Prediction\<close>

lemma has_entries_cong:
  "has_entries a n m g \<Longrightarrow> (\<And>i t. i < n \<Longrightarrow> t < m \<Longrightarrow> g i t = h i t) \<Longrightarrow> has_entries a n m h"
  by (auto simp: has_entries_def split: ndarray.splits)

lemma add_column_entries:
  assumes "has_entries a n m g" and "t < m" and "length col = n"
  shows "\<exists>a'. add_column a t col = Inr a' \<and>
           has_entries a' n m (\<lambda>i t'. if t' = t then g i t + col ! i else g i t')"
proof -
  from assms(1) obtain rows where a: "a = Array2 n m rows"
    and rows: "rows = map (\<lambda>i. map (\<lambda>t. g i t) [0..<m]) [0..<n]"
    by (auto simp: has_entries_def split: ndarray.splits)
  have "map (\<lambda>(row, v). row[t := row ! t + v]) (zip rows col) =
        map (\<lambda>i. map (\<lambda>t'. if t' = t then g i t + col ! i else g i t') [0..<m]) [0..<n]"
    using assms(2,3) unfolding rows
    by (auto intro!: nth_equalityI simp: nth_list_update)
  with a assms(2,3) show ?thesis
    by (simp add: has_entries_def)
qed

lemma predict_tasks_entries:
  assumes "has_entries out n m g" and "itask + length rest \<le> m"
    and "\<forall>row \<in> set rest. idescr < length row"
    and "evaluate E descr df = Inr col" and "length col = n"
  shows "\<exists>out'. predict_tasks E df idescr descr itask rest out = Inr out' \<and>
           has_entries out' n m
             (\<lambda>i t. if itask \<le> t \<and> t < itask + length rest
                     then g i t + rest ! (t - itask) ! idescr * col ! i else g i t)"
  using assms(1-3)
proof (induction rest arbitrary: itask out g)
  case Nil
  from Nil(1) have "has_entries out n m
      (\<lambda>i t. if itask \<le> t \<and> t < itask + length ([] :: 'a list list)
              then g i t + [] ! (t - itask) ! idescr * col ! i else g i t)"
    by (rule has_entries_cong) auto
  then show ?case by simp
next
  case (Cons coeffs rest)
  let ?c = "coeffs ! idescr"
  let ?g = "\<lambda>i t'. if t' = itask then g i itask + map (\<lambda>v. ?c * v) col ! i else g i t'"
  from Cons.prems have t: "itask < m" and c: "item coeffs idescr = Inr ?c"
    by (auto simp: item_def)
  from add_column_entries [OF Cons.prems(1) t, of "map (\<lambda>v. ?c * v) col"] assms(5)
  obtain a' where a': "add_column out itask (map (\<lambda>v. ?c * v) col) = Inr a'"
    and e: "has_entries a' n m ?g"
    by auto
  from Cons.prems have "Suc itask + length rest \<le> m" and "\<forall>row \<in> set rest. idescr < length row"
    by auto
  from Cons.IH [OF e this]
  obtain out' where o: "predict_tasks E df idescr descr (Suc itask) rest a' = Inr out'"
    and e': "has_entries out' n m
       (\<lambda>i t. if Suc itask \<le> t \<and> t < Suc itask + length rest
               then ?g i t + rest ! (t - Suc itask) ! idescr * col ! i else ?g i t)"
    by blast
  have "predict_tasks E df idescr descr itask (coeffs # rest) out = Inr out'"
    using c a' o assms(4) by (simp add: bind_def)
  moreover have "has_entries out' n m
       (\<lambda>i t. if itask \<le> t \<and> t < itask + length (coeffs # rest)
               then g i t + (coeffs # rest) ! (t - itask) ! idescr * col ! i else g i t)"
    using e' 
  proof (rule has_entries_cong)
    fix i t assume "i < n" "t < m"
    then show "(if Suc itask \<le> t \<and> t < Suc itask + length rest
               then ?g i t + rest ! (t - Suc itask) ! idescr * col ! i else ?g i t) =
          (if itask \<le> t \<and> t < itask + length (coeffs # rest)
               then g i t + (coeffs # rest) ! (t - itask) ! idescr * col ! i else g i t)"
      using assms(5) by (auto simp: nth_Cons' Suc_diff_le)
  qed
  ultimately show ?case by blast
qed

lemma predict_descriptors_entries:
  fixes g :: "nat \<Rightarrow> nat \<Rightarrow> 'f::semiring_0"
  assumes "has_entries out n m g" and "length coeffss = m"
    and "\<forall>row \<in> set coeffss. idescr + length ds \<le> length row"
    and "\<forall>k < length ds. evaluate E (ds ! k) df = Inr (col (idescr + k)) \<and>
           length (col (idescr + k)) = n"
  shows "\<exists>out'. predict_descriptors E df coeffss idescr ds out = Inr out' \<and>
           has_entries out' n m
             (\<lambda>i t. g i t + (\<Sum>d = idescr..<idescr + length ds. coeffss ! t ! d * col d ! i))"
  using assms(1,3,4)
proof (induction ds arbitrary: idescr out g)
  case Nil
  from Nil(1) have "has_entries out n m (\<lambda>i t. g i t + 0)"
    by (rule has_entries_cong) auto
  then show ?case by simp
next
  case (Cons descr ds)
  from Cons.prems(3) have ev: "evaluate E descr df = Inr (col idescr)" and len: "length (col idescr) = n"
    by force+
  from Cons.prems(2) have rows: "\<forall>row \<in> set coeffss. idescr < length row"
    by auto
  from predict_tasks_entries [OF Cons.prems(1) _ rows ev len, of 0] assms(2)
  obtain a' where a': "predict_tasks E df idescr descr 0 coeffss out = Inr a'"
    and e: "has_entries a' n m
       (\<lambda>i t. if 0 \<le> t \<and> t < 0 + length coeffss
               then g i t + coeffss ! (t - 0) ! idescr * col idescr ! i else g i t)"
    by auto
  let ?g = "\<lambda>i t. g i t + coeffss ! t ! idescr * col idescr ! i"
  from e have e1: "has_entries a' n m ?g"
    by (rule has_entries_cong) (simp add: assms(2))
  from Cons.prems(2) have p2: "\<forall>row \<in> set coeffss. Suc idescr + length ds \<le> length row"
    by auto
  from Cons.prems(3) have p3: "\<forall>k < length ds. evaluate E (ds ! k) df = Inr (col (Suc idescr + k)) \<and>
           length (col (Suc idescr + k)) = n"
    by fastforce
  from Cons.IH [OF e1 p2 p3]
  obtain out' where o: "predict_descriptors E df coeffss (Suc idescr) ds a' = Inr out'"
    and e': "has_entries out' n m
       (\<lambda>i t. ?g i t + (\<Sum>d = Suc idescr..<Suc idescr + length ds. coeffss ! t ! d * col d ! i))"
    by blast
  have "predict_descriptors E df coeffss idescr (descr # ds) out = Inr out'"
    using a' o by (simp add: bind_def)
  moreover have "has_entries out' n m
       (\<lambda>i t. g i t + (\<Sum>d = idescr..<idescr + length (descr # ds). coeffss ! t ! d * col d ! i))"
    using e' by (rule has_entries_cong) (simp add: sum.atLeast_Suc_lessThan add.assoc)
  ultimately show ?case by blast
qed

lemma intercept_array_entries:
  assumes "ics \<noteq> []"
  shows "has_entries (np_T (np_array (map (\<lambda>c. replicate r c) ics))) r (length ics) (\<lambda>i t. ics ! t)"
proof -
  have "map (\<lambda>row. row ! j) (map (\<lambda>c. replicate r c) ics) = map (\<lambda>t. ics ! t) [0..<length ics]"
    if "j < r" for j
    using that by (auto intro!: nth_equalityI)
  then have "map (\<lambda>j. map (\<lambda>row. row ! j) (map (\<lambda>c. replicate r c) ics)) [0..<r] =
             map (\<lambda>i. map (\<lambda>t. ics ! t) [0..<length ics]) [0..<r]"
    by simp
  with assms show ?thesis
    by (simp add: np_array_def has_entries_def hd_map)
qed

section \<open>Properties\<close>

text \<open>
  C9. The kernel is \<open>scd x = 1 / (\<pi> (1 + x\<^sup>2))\<close> for every real \<open>x\<close>; so \<open>scd 0 = 1 / \<pi>\<close>,
  and \<open>scd\<close> is symmetric: \<open>scd x = scd (- x)\<close>.
\<close>

theorem scd_cauchy_density:
  "scd x = 1 / (pi * (1 + x\<^sup>2)) \<and> scd 0 = 1 / pi \<and> scd x = scd (- x)"
  by (simp add: scd_def power2_eq_square)

end
